theory Spec2Isabelle
  imports Complex_Main
begin

section \<open>Book management service: data model\<close>

text \<open>
  The persisted rows of \<^verbatim>\<open>models.py\<close>. \<^verbatim>\<open>Book.summary\<close> is declared nullable
  and may be NULL in a stored row; the other book columns are only ever written from a
  validated \<^verbatim>\<open>BookCreate\<close>, whose fields are required strings and integers.
  \<^verbatim>\<open>Review.rating\<close> is a float that the code only stores and returns; it is
  carried as a real number.
\<close>

record User =
  User_id :: int
  User_username :: string
  User_hashed_password :: string

record Book =
  Book_id :: int
  Book_title :: string
  Book_author :: string
  Book_genre :: string
  Book_year_published :: int
  Book_summary :: "string option"

record Review =
  Review_id :: int
  Review_book_id :: int
  Review_user_id :: int
  Review_review_text :: string
  Review_rating :: real

text \<open>
  The request and response schemas of \<^verbatim>\<open>schemas.py\<close>. A \<^verbatim>\<open>BookCreate\<close> object
  remembers which fields the request supplied (\<^verbatim>\<open>__fields_set__\<close>); the four
  required fields are always among them, so one flag for \<^verbatim>\<open>summary\<close> is enough.
\<close>

record UserCreate =
  UserCreate_username :: string
  UserCreate_password :: string

record UserOut =
  UserOut_id :: int
  UserOut_username :: string

record BookCreate =
  BookCreate_title :: string
  BookCreate_author :: string
  BookCreate_genre :: string
  BookCreate_year_published :: int
  BookCreate_summary :: "string option"
  BookCreate_summary_set :: bool

record ReviewCreate =
  ReviewCreate_book_id :: int
  ReviewCreate_user_id :: int
  ReviewCreate_review_text :: string
  ReviewCreate_rating :: real

record SummaryRequest =
  SummaryRequest_book_content :: string

text \<open>
  A JSON request body for a \<^verbatim>\<open>BookCreate\<close> parameter, before validation: every key
  may be missing, and \<^verbatim>\<open>summary\<close> may also be sent as an explicit null
  (\<open>Some None\<close>).
\<close>

record BookCreate_json =
  json_title :: "string option"
  json_author :: "string option"
  json_genre :: "string option"
  json_year_published :: "int option"
  json_summary :: "string option option"

text \<open>
  Exceptions. An \<^verbatim>\<open>HTTPException\<close> carries its status code and detail; the detail
  is a literal of the source or \<^verbatim>\<open>str(e)\<close> of a caught exception.
\<close>

datatype exception =
    HTTPException int detail
  | IntegrityError
  | MultipleResultsFound
  | ModelError string
  | RequestValidationError
  | ResponseValidationError
and detail = Detail string | Str exception

text \<open>The status the framework answers with when a handler raises.\<close>

fun status_code :: "exception \<Rightarrow> int" where
  "status_code (HTTPException c d) = c"
| "status_code RequestValidationError = 422"
| "status_code e = 500"

datatype response = Response int

section \<open>The store\<close>

text \<open>
  The three tables in insertion order, and the sequence that gives each table its next
  primary key. Primary keys are unique and \<^verbatim>\<open>users.username\<close> is unique: an insert
  that collides raises \<^verbatim>\<open>IntegrityError\<close>. Deleting a book deletes the reviews that
  reference it, as the \<^verbatim>\<open>ON DELETE CASCADE\<close> on \<^verbatim>\<open>reviews.book_id\<close> declares. An
  insert of a review stores the row the code builds: the code does not look at whether
  its \<^verbatim>\<open>book_id\<close> names a book, and no such check is modelled.
\<close>

record store =
  users :: "User list"
  books :: "Book list"
  reviews :: "Review list"
  users_id_seq :: int
  books_id_seq :: int
  reviews_id_seq :: int

definition add_user :: "store \<Rightarrow> string \<Rightarrow> string \<Rightarrow> exception + store \<times> User" where
  "add_user db uname hashed =
     (let new_id = users_id_seq db in
      if list_ex (\<lambda>u. User_id u = new_id \<or> User_username u = uname) (users db)
      then Inl IntegrityError
      else
        let new_user = \<lparr>User_id = new_id, User_username = uname,
                         User_hashed_password = hashed\<rparr>
        in Inr (db\<lparr>users := users db @ [new_user], users_id_seq := new_id + 1\<rparr>, new_user))"

definition add_book :: "store \<Rightarrow> BookCreate \<Rightarrow> exception + store \<times> Book" where
  "add_book db book =
     (let new_id = books_id_seq db in
      if list_ex (\<lambda>b. Book_id b = new_id) (books db)
      then Inl IntegrityError
      else
        let db_book = \<lparr>Book_id = new_id,
                        Book_title = BookCreate_title book,
                        Book_author = BookCreate_author book,
                        Book_genre = BookCreate_genre book,
                        Book_year_published = BookCreate_year_published book,
                        Book_summary = BookCreate_summary book\<rparr>
        in Inr (db\<lparr>books := books db @ [db_book], books_id_seq := new_id + 1\<rparr>, db_book))"

definition add_review :: "store \<Rightarrow> ReviewCreate \<Rightarrow> exception + store \<times> Review" where
  "add_review db review =
     (let new_id = reviews_id_seq db in
      if list_ex (\<lambda>r. Review_id r = new_id) (reviews db)
      then Inl IntegrityError
      else
        let db_review = \<lparr>Review_id = new_id,
                          Review_book_id = ReviewCreate_book_id review,
                          Review_user_id = ReviewCreate_user_id review,
                          Review_review_text = ReviewCreate_review_text review,
                          Review_rating = ReviewCreate_rating review\<rparr>
        in Inr (db\<lparr>reviews := reviews db @ [db_review], reviews_id_seq := new_id + 1\<rparr>,
                db_review))"

text \<open>\<^verbatim>\<open>DELETE FROM books WHERE id = :book_id\<close>, with the cascade to the reviews.\<close>

definition delete_books_where_id :: "store \<Rightarrow> int \<Rightarrow> store" where
  "delete_books_where_id db book_id =
     db\<lparr>books := filter (\<lambda>b. Book_id b \<noteq> book_id) (books db),
        reviews := filter (\<lambda>r. Review_book_id r \<noteq> book_id) (reviews db)\<rparr>"

text \<open>\<^verbatim>\<open>Result.scalar_one_or_none()\<close>: at most one row, or an exception.\<close>

definition scalar_one_or_none :: "'a list \<Rightarrow> exception + 'a option" where
  "scalar_one_or_none rows =
     (case rows of
        [] \<Rightarrow> Inr None
      | [x] \<Rightarrow> Inr (Some x)
      | x # y # zs \<Rightarrow> Inl MultipleResultsFound)"

section \<open>Serialising through the response model\<close>

definition UserOut_of :: "User \<Rightarrow> UserOut" where
  "UserOut_of u = \<lparr>UserOut_id = User_id u, UserOut_username = User_username u\<rparr>"

definition BookCreate_of :: "Book \<Rightarrow> BookCreate" where
  "BookCreate_of b =
     \<lparr>BookCreate_title = Book_title b,
      BookCreate_author = Book_author b,
      BookCreate_genre = Book_genre b,
      BookCreate_year_published = Book_year_published b,
      BookCreate_summary = Book_summary b,
      BookCreate_summary_set = True\<rparr>"

text \<open>
  A route with \<^verbatim>\<open>response_model=schemas.BookCreate\<close> validates what the handler
  returns against the schema. \<^verbatim>\<open>summary\<close> is declared \<^verbatim>\<open>str\<close>: a row or dictionary
  whose summary is \<^verbatim>\<open>None\<close> fails the validation, and the request is answered with
  status 500. A list is valid when each of its rows is.
\<close>

definition BookCreate_response :: "Book \<Rightarrow> exception + BookCreate" where
  "BookCreate_response b =
     (case Book_summary b of
        None \<Rightarrow> Inl ResponseValidationError
      | Some s \<Rightarrow> Inr (BookCreate_of b))"


definition ReviewCreate_of :: "Review \<Rightarrow> ReviewCreate" where
  "ReviewCreate_of r =
     \<lparr>ReviewCreate_book_id = Review_book_id r,
      ReviewCreate_user_id = Review_user_id r,
      ReviewCreate_review_text = Review_review_text r,
      ReviewCreate_rating = Review_rating r\<rparr>"

text \<open>
  Validation of a request body against \<^verbatim>\<open>BookCreate\<close>: \<^verbatim>\<open>title\<close>,
  \<^verbatim>\<open>author\<close>, \<^verbatim>\<open>genre\<close> and \<^verbatim>\<open>year_published\<close> are declared without a default
  and are required; \<^verbatim>\<open>summary\<close> is declared \<^verbatim>\<open>str\<close> with the default
  \<^verbatim>\<open>None\<close>, so it may be left out, but an explicit null is not a string and is
  rejected.
\<close>

definition parse_BookCreate :: "BookCreate_json \<Rightarrow> exception + BookCreate" where
  "parse_BookCreate j =
     (case (json_title j, json_author j, json_genre j, json_year_published j) of
        (Some t, Some a, Some g, Some y) \<Rightarrow>
          (case json_summary j of
             Some None \<Rightarrow> Inl RequestValidationError
           | Some (Some s) \<Rightarrow>
               Inr \<lparr>BookCreate_title = t, BookCreate_author = a, BookCreate_genre = g,
                    BookCreate_year_published = y,
                    BookCreate_summary = Some s, BookCreate_summary_set = True\<rparr>
           | None \<Rightarrow>
               Inr \<lparr>BookCreate_title = t, BookCreate_author = a, BookCreate_genre = g,
                    BookCreate_year_published = y,
                    BookCreate_summary = None, BookCreate_summary_set = False\<rparr>)
      | _ \<Rightarrow> Inl RequestValidationError)"

section \<open>auth.py\<close>

text \<open>
  The body of the \<^verbatim>\<open>try\<close> block of \<^verbatim>\<open>register\<close>. The password hash (bcrypt, from
  a library) is a parameter.
\<close>

definition register_try ::
  "(string \<Rightarrow> string) \<Rightarrow> store \<Rightarrow> UserCreate \<Rightarrow> exception + store \<times> User" where
  "register_try hash_password db user =
     (case scalar_one_or_none
             (filter (\<lambda>u. User_username u = UserCreate_username user) (users db)) of
        Inl e \<Rightarrow> Inl e
      | Inr (Some existing_user) \<Rightarrow>
          Inl (HTTPException 400 (Detail ''Username already registered''))
      | Inr None \<Rightarrow>
          add_user db (UserCreate_username user) (hash_password (UserCreate_password user)))"

text \<open>
  \<^verbatim>\<open>register\<close>: the \<^verbatim>\<open>except Exception\<close> clause catches whatever the block
  raised and raises status 500 in its place.
\<close>

definition register ::
  "(string \<Rightarrow> string) \<Rightarrow> store \<Rightarrow> UserCreate \<Rightarrow> store \<times> (exception + UserOut)" where
  "register hash_password db user =
     (case register_try hash_password db user of
        Inl e \<Rightarrow> (db, Inl (HTTPException 500 (Detail ''Internal server error'')))
      | Inr (db', new_user) \<Rightarrow> (db', Inr (UserOut_of new_user)))"

section \<open>crud.py\<close>

definition insert_book_data :: "store \<Rightarrow> BookCreate \<Rightarrow> exception + store \<times> Book" where
  "insert_book_data db book = add_book db book"

definition get_book :: "store \<Rightarrow> int \<Rightarrow> Book option" where
  "get_book db book_id = find (\<lambda>b. Book_id b = book_id) (books db)"


text \<open>
  The \<^verbatim>\<open>SET\<close> clause built from \<^verbatim>\<open>book.dict(exclude_unset=True)\<close>: the fields the
  request supplied.
\<close>

definition set_values :: "BookCreate \<Rightarrow> Book \<Rightarrow> Book" where
  "set_values book row =
     row\<lparr>Book_title := BookCreate_title book,
         Book_author := BookCreate_author book,
         Book_genre := BookCreate_genre book,
         Book_year_published := BookCreate_year_published book,
         Book_summary := (if BookCreate_summary_set book then BookCreate_summary book
                          else Book_summary row)\<rparr>"

definition update_book_data ::
  "store \<Rightarrow> int \<Rightarrow> BookCreate \<Rightarrow> exception + store \<times> Book option" where
  "update_book_data db book_id book =
     (let rowcount = length (filter (\<lambda>b. Book_id b = book_id) (books db)) in
      if rowcount = 0 then Inl (HTTPException 404 (Detail ''Book not found''))
      else
        let db' = db\<lparr>books := map (\<lambda>b. if Book_id b = book_id then set_values book b else b)
                                   (books db)\<rparr>
        in Inr (db', get_book db' book_id))"

definition delete_book_data :: "store \<Rightarrow> int \<Rightarrow> exception + store \<times> bool" where
  "delete_book_data db book_id =
     (case scalar_one_or_none (filter (\<lambda>b. Book_id b = book_id) (books db)) of
        Inl e \<Rightarrow> Inl e
      | Inr None \<Rightarrow> Inl (HTTPException 404 (Detail ''Book not found''))
      | Inr (Some book) \<Rightarrow> Inr (delete_books_where_id db book_id, True))"

definition insert_review_data :: "store \<Rightarrow> ReviewCreate \<Rightarrow> exception + store \<times> Review" where
  "insert_review_data db review = add_review db review"

definition get_review :: "store \<Rightarrow> int \<Rightarrow> exception + Review list" where
  "get_review db book_id =
     (let found = filter (\<lambda>r. Review_book_id r = book_id) (reviews db) in
      if found = [] then Inl (HTTPException 404 (Detail ''Review not found''))
      else Inr found)"

section \<open>main.py\<close>

text \<open>The language model is a parameter: it answers a prompt or raises.\<close>

definition generate :: "(string \<Rightarrow> exception + string) \<Rightarrow> string \<Rightarrow> exception + string" where
  "generate llm prompt = llm prompt"

definition create_book ::
  "(string \<Rightarrow> exception + string) \<Rightarrow> store \<Rightarrow> BookCreate \<Rightarrow> store \<times> (exception + BookCreate)"
where
  "create_book llm db book =
     (let prompt = ''Summarize book title '' @ BookCreate_title book @ '' by ''
                   @ BookCreate_author book @ '' in 150 words.'' in
      case generate llm prompt of
        Inl e \<Rightarrow> (db, Inl (HTTPException 500 (Str e)))
      | Inr response \<Rightarrow>
          let updated = book\<lparr>BookCreate_summary := Some response,
                             BookCreate_summary_set := True\<rparr> in
          (case insert_book_data db updated of
             Inl e \<Rightarrow> (db, Inl (HTTPException 500 (Str e)))
           | Inr (db', db_book) \<Rightarrow> (db', BookCreate_response db_book)))"


text \<open>
  \<^verbatim>\<open>read_book\<close> returns a dictionary of the row's title, author, genre, year and
  summary; the route validates it like a row.
\<close>

definition read_book :: "store \<Rightarrow> int \<Rightarrow> store \<times> (exception + BookCreate)" where
  "read_book db book_id =
     (case get_book db book_id of
        None \<Rightarrow> (db, Inl (HTTPException 404 (Detail ''Book not found'')))
      | Some db_book \<Rightarrow> (db, BookCreate_response db_book))"

definition update_book ::
  "store \<Rightarrow> int \<Rightarrow> BookCreate \<Rightarrow> store \<times> (exception + BookCreate)" where
  "update_book db book_id book =
     (case get_book db book_id of
        None \<Rightarrow> (db, Inl (HTTPException 404 (Detail ''Book not found'')))
      | Some db_book \<Rightarrow>
          (case update_book_data db book_id book of
             Inl e \<Rightarrow> (db, Inl e)
           | Inr (db', None) \<Rightarrow> (db', Inl ResponseValidationError)
           | Inr (db', Some updated_book) \<Rightarrow> (db', BookCreate_response updated_book)))"

text \<open>
  The route \<^verbatim>\<open>PUT /books/{book_id}\<close>: the framework validates the body against the
  handler's parameter type before it calls the handler.
\<close>

definition put_book ::
  "store \<Rightarrow> int \<Rightarrow> BookCreate_json \<Rightarrow> store \<times> (exception + BookCreate)" where
  "put_book db book_id body =
     (case parse_BookCreate body of
        Inl e \<Rightarrow> (db, Inl e)
      | Inr book \<Rightarrow> update_book db book_id book)"

definition delete_book :: "store \<Rightarrow> int \<Rightarrow> store \<times> (exception + response)" where
  "delete_book db book_id =
     (case get_book db book_id of
        None \<Rightarrow> (db, Inl (HTTPException 404 (Detail ''Book not found'')))
      | Some db_book \<Rightarrow>
          (case delete_book_data db book_id of
             Inl e \<Rightarrow> (db, Inl e)
           | Inr (db', deleted) \<Rightarrow> (db', Inr (Response 204))))"

definition create_review_for_book ::
  "store \<Rightarrow> int \<Rightarrow> ReviewCreate \<Rightarrow> store \<times> (exception + ReviewCreate)" where
  "create_review_for_book db book_id review =
     (case get_book db book_id of
        None \<Rightarrow> (db, Inl (HTTPException 404 (Detail ''Book not found'')))
      | Some db_book \<Rightarrow>
          (case insert_review_data db review of
             Inl e \<Rightarrow> (db, Inl e)
           | Inr (db', db_review) \<Rightarrow> (db', Inr (ReviewCreate_of db_review))))"

text \<open>
  The handler of \<^verbatim>\<open>GET /books/{book_id}/reviews\<close>. (The module reuses the name for
  the handler of the summary route further down; each is registered under its own path.)
\<close>

definition read_reviews_for_book ::
  "store \<Rightarrow> int \<Rightarrow> store \<times> (exception + ReviewCreate list)" where
  "read_reviews_for_book db book_id =
     (case get_book db book_id of
        None \<Rightarrow> (db, Inl (HTTPException 404 (Detail ''Book not found'')))
      | Some db_book \<Rightarrow>
          (case get_review db book_id of
             Inl e \<Rightarrow> (db, Inl e)
           | Inr found \<Rightarrow> (db, Inr (map ReviewCreate_of found))))"

text \<open>
  \<^verbatim>\<open>str.strip()\<close> removes leading and trailing whitespace. Among the characters
  below 256 these are tab, line feed, vertical tab, form feed, carriage return, the four
  separators \<^verbatim>\<open>0x1c\<close> to \<^verbatim>\<open>0x1f\<close>, space, next line (\<^verbatim>\<open>0x85\<close>) and
  no-break space (\<^verbatim>\<open>0xa0\<close>).
\<close>

definition isspace :: "char \<Rightarrow> bool" where
  "isspace c = ((of_char c :: nat) \<in> {9, 10, 11, 12, 13, 28, 29, 30, 31, 32, 133, 160})"

definition strip :: "string \<Rightarrow> string" where
  "strip s = rev (dropWhile isspace (rev (dropWhile isspace s)))"

definition summarize_with_llamacpp :: "(string \<Rightarrow> exception + string) \<Rightarrow> string \<Rightarrow> string" where
  "summarize_with_llamacpp llm content =
     (let prompt = ''Summarize the following content:'' @ [CHR 0x0A] @ content in
      case generate llm prompt of
        Inr generated \<Rightarrow> strip generated
      | Inl e \<Rightarrow> ''Summary generation failed.'')"

text \<open>
  \<^verbatim>\<open>POST /generate-summary\<close>. The answer is a dictionary with the one key
  \<^verbatim>\<open>summary\<close>; the model returns its value.
\<close>

definition generate_summary ::
  "(string \<Rightarrow> exception + string) \<Rightarrow> SummaryRequest \<Rightarrow> exception + string" where
  "generate_summary llm request =
     (let summary = summarize_with_llamacpp llm (SummaryRequest_book_content request) in
      if summary = ''Summary generation failed.''
      then Inl (HTTPException 500 (Detail ''Failed to generate summary.''))
      else Inr summary)"

section \<open>Sample data\<close>

text \<open>Concrete stores, requests and language models on which the properties are run.\<close>

definition demo_hash :: "string \<Rightarrow> string" where
  "demo_hash password = ''bcrypt:'' @ password"

definition empty_store :: store where
  "empty_store = \<lparr>users = [], books = [], reviews = [],
                   users_id_seq = 1, books_id_seq = 1, reviews_id_seq = 1\<rparr>"

definition alice :: User where
  "alice = \<lparr>User_id = 1, User_username = ''alice'',
             User_hashed_password = ''bcrypt:secret''\<rparr>"

definition alice_store :: store where
  "alice_store = empty_store\<lparr>users := [alice], users_id_seq := 2\<rparr>"

definition dune :: Book where
  "dune = \<lparr>Book_id = 1, Book_title = ''Dune'', Book_author = ''Herbert'', Book_genre = ''SF'',
            Book_year_published = 1965, Book_summary = Some ''A desert planet.''\<rparr>"

definition emma :: Book where
  "emma = \<lparr>Book_id = 2, Book_title = ''Emma'', Book_author = ''Austen'', Book_genre = ''Novel'',
            Book_year_published = 1815, Book_summary = None\<rparr>"

definition dune_review :: Review where
  "dune_review = \<lparr>Review_id = 1, Review_book_id = 1, Review_user_id = 1,
                   Review_review_text = ''Sand everywhere'', Review_rating = 4\<rparr>"

definition library :: store where
  "library = \<lparr>users = [alice], books = [dune, emma], reviews = [dune_review],
               users_id_seq = 2, books_id_seq = 3, reviews_id_seq = 2\<rparr>"

definition title_only :: BookCreate_json where
  "title_only = \<lparr>json_title = Some ''X'', json_author = None, json_genre = None,
                  json_year_published = None, json_summary = None\<rparr>"

definition retitled :: BookCreate_json where
  "retitled = \<lparr>json_title = Some ''X'', json_author = Some ''Herbert'',
                json_genre = Some ''SF'', json_year_published = Some 1965,
                json_summary = None\<rparr>"

definition emma_retitled :: BookCreate_json where
  "emma_retitled = \<lparr>json_title = Some ''Emma, revised'', json_author = Some ''Austen'',
                     json_genre = Some ''Novel'', json_year_published = Some 1815,
                     json_summary = None\<rparr>"


definition dune_request :: BookCreate where
  "dune_request = \<lparr>BookCreate_title = ''Dune'', BookCreate_author = ''Herbert'',
                    BookCreate_genre = ''SF'', BookCreate_year_published = 1965,
                    BookCreate_summary = None, BookCreate_summary_set = False\<rparr>"

definition dune_copy :: Book where
  "dune_copy = \<lparr>Book_id = 3, Book_title = ''Dune'', Book_author = ''Herbert'',
                 Book_genre = ''SF'', Book_year_published = 1965, Book_summary = None\<rparr>"

definition dune_summarised :: Book where
  "dune_summarised = dune_copy\<lparr>Book_summary := Some '' A short summary. ''\<rparr>"


definition abc_request :: SummaryRequest where
  "abc_request = \<lparr>SummaryRequest_book_content = ''abc''\<rparr>"

definition emma_review :: ReviewCreate where
  "emma_review = \<lparr>ReviewCreate_book_id = 2, ReviewCreate_user_id = 1,
                   ReviewCreate_review_text = ''Witty'', ReviewCreate_rating = 5\<rparr>"


definition silent_llm :: "string \<Rightarrow> exception + string" where
  "silent_llm prompt = Inr []"

definition failing_llm :: "string \<Rightarrow> exception + string" where
  "failing_llm prompt = Inl (ModelError ''model not loaded'')"

definition padded_llm :: "string \<Rightarrow> exception + string" where
  "padded_llm prompt = Inr '' A short summary. ''"

section \<open>Lookups and updates on the tables\<close>

lemma get_book_None_iff:
  "get_book db book_id = None \<longleftrightarrow> book_id \<notin> Book_id ` set (books db)"
  by (auto simp: get_book_def find_None_iff)

lemma get_book_SomeD:
  "get_book db book_id = Some b \<Longrightarrow> b \<in> set (books db) \<and> Book_id b = book_id"
  by (auto simp: get_book_def find_Some_iff)

lemma find_append_None: "find P xs = None \<Longrightarrow> find P (xs @ ys) = find P ys"
  by (induction xs) (auto split: if_splits)

lemma Book_id_set_values: "Book_id (set_values book b) = Book_id b"
  by (simp add: set_values_def)

lemma find_map_update:
  "find (\<lambda>b. Book_id b = i) (map (\<lambda>b. if Book_id b = i then set_values book b else b) xs)
     = map_option (set_values book) (find (\<lambda>b. Book_id b = i) xs)"
  by (induction xs) (auto simp: set_values_def)

lemma filter_others_update:
  "filter (\<lambda>b. Book_id b \<noteq> i)
       (map (\<lambda>b. if Book_id b = i then set_values book b else b) xs)
     = filter (\<lambda>b. Book_id b \<noteq> i) xs"
  by (induction xs) (auto simp: set_values_def)

section \<open>Registration\<close>

text \<open>
  Whenever the username is already stored, \<^verbatim>\<open>register\<close> leaves the store as it is,
  and the status it answers with is 500: the 400 raised inside the \<^verbatim>\<open>try\<close> block is
  caught by the block's own \<^verbatim>\<open>except Exception\<close>.
\<close>

lemma register_existing_username:
  assumes "UserCreate_username user \<in> User_username ` set (users db)"
  shows "register hash_password db user
           = (db, Inl (HTTPException 500 (Detail ''Internal server error'')))"
proof -
  have "filter (\<lambda>u. User_username u = UserCreate_username user) (users db) \<noteq> []"
    using assms by (auto simp: filter_empty_conv)
  then have "\<not> (\<exists>db' u. register_try hash_password db user = Inr (db', u))"
    by (auto simp: register_try_def scalar_one_or_none_def split: list.splits)
  then show ?thesis
    by (auto simp: register_def split: sum.splits)
qed

text \<open>
  C1. Registering a username that is already present: the store is unchanged and no second
  row is inserted, but the call fails with status 500 and detail
  \<^verbatim>\<open>Internal server error\<close>, not with the status 400 that the docstring of
  \<^verbatim>\<open>register\<close> announces. Run on the store that holds \<^verbatim>\<open>alice\<close>.
\<close>

theorem register_duplicate_answers_500:
  "register demo_hash alice_store
      \<lparr>UserCreate_username = ''alice'', UserCreate_password = ''other''\<rparr>
     = (alice_store, Inl (HTTPException 500 (Detail ''Internal server error'')))
   \<and> status_code (HTTPException 500 (Detail ''Internal server error'')) \<noteq> 400
   \<and> register_try demo_hash alice_store
        \<lparr>UserCreate_username = ''alice'', UserCreate_password = ''other''\<rparr>
       = Inl (HTTPException 400 (Detail ''Username already registered''))"
  by (simp add: register_def register_try_def scalar_one_or_none_def alice_store_def
        empty_store_def alice_def)

section \<open>Reviews of a book that does not exist\<close>

text \<open>
  C2. When no book row has the id of the path, \<^verbatim>\<open>create_review_for_book\<close> fails with
  404 \<^verbatim>\<open>Book not found\<close> and returns the store exactly as it was: no review row is
  inserted.
\<close>

theorem create_review_unknown_book_not_found:
  assumes "book_id \<notin> Book_id ` set (books db)"
  shows "create_review_for_book db book_id review
           = (db, Inl (HTTPException 404 (Detail ''Book not found'')))"
  using assms by (simp add: create_review_for_book_def get_book_None_iff [symmetric])

theorem create_review_unknown_book_not_found_witness:
  "999 \<notin> Book_id ` set (books library)
   \<and> create_review_for_book library 999 emma_review
       = (library, Inl (HTTPException 404 (Detail ''Book not found'')))"
proof -
  have absent: "999 \<notin> Book_id ` set (books library)"
    by (simp add: library_def dune_def emma_def)
  from create_review_unknown_book_not_found [OF absent] absent show ?thesis
    by simp
qed

section \<open>Updating a book\<close>

lemma update_book_found:
  assumes "get_book db book_id = Some old"
  shows "update_book db book_id book =
           (db\<lparr>books := map (\<lambda>b. if Book_id b = book_id then set_values book b else b)
                             (books db)\<rparr>,
            BookCreate_response (set_values book old))"
proof -
  from assms have "filter (\<lambda>b. Book_id b = book_id) (books db) \<noteq> []"
    by (auto simp: get_book_def find_Some_iff filter_empty_conv)
  with assms show ?thesis
    by (simp add: update_book_def update_book_data_def get_book_def find_map_update Let_def)
qed

lemma put_book_rejected:
  assumes "json_title body = None \<or> json_author body = None \<or> json_genre body = None
           \<or> json_year_published body = None \<or> json_summary body = Some None"
  shows "put_book db book_id body = (db, Inl RequestValidationError)"
proof -
  from assms have "parse_BookCreate body = Inl RequestValidationError"
    by (auto simp: parse_BookCreate_def split: option.splits)
  then show ?thesis
    by (simp add: put_book_def)
qed

text \<open>
  C3, as the code has it. The body of \<^verbatim>\<open>PUT /books/{book_id}\<close> is validated against
  \<^verbatim>\<open>BookCreate\<close>: a body that lacks \<^verbatim>\<open>title\<close>, \<^verbatim>\<open>author\<close>, \<^verbatim>\<open>genre\<close> or
  \<^verbatim>\<open>year_published\<close>, or whose \<^verbatim>\<open>summary\<close> is null, is rejected and the store stays
  as it was. For a book that exists and a body that passes, the update writes the supplied
  fields into the row, keeps the row's id and, when \<^verbatim>\<open>summary\<close> is left out, its
  summary, and leaves every row with another id, the ids of the rows in their order and
  the rest of the store as they were. When the updated row has a summary, the row as
  re-read from the updated store is returned.
\<close>

theorem put_book_sets_supplied_fields:
  "(json_title body = None \<or> json_author body = None \<or> json_genre body = None
      \<or> json_year_published body = None \<or> json_summary body = Some None
     \<longrightarrow> put_book db book_id body = (db, Inl RequestValidationError))
   \<and> (get_book db book_id = Some old
       \<and> json_title body = Some t \<and> json_author body = Some a
       \<and> json_genre body = Some g \<and> json_year_published body = Some y
       \<and> json_summary body \<noteq> Some None
     \<longrightarrow> (\<exists>db' new.
           fst (put_book db book_id body) = db'
         \<and> get_book db' book_id = Some new
         \<and> Book_id new = Book_id old
         \<and> Book_title new = t \<and> Book_author new = a
         \<and> Book_genre new = g \<and> Book_year_published new = y
         \<and> Book_summary new
             = (case json_summary body of None \<Rightarrow> Book_summary old | Some s \<Rightarrow> s)
         \<and> filter (\<lambda>b. Book_id b \<noteq> book_id) (books db')
             = filter (\<lambda>b. Book_id b \<noteq> book_id) (books db)
         \<and> map Book_id (books db') = map Book_id (books db)
         \<and> db' = db\<lparr>books := books db'\<rparr>
         \<and> (Book_summary new \<noteq> None
              \<longrightarrow> put_book db book_id body = (db', Inr (BookCreate_of new)))))"
proof (intro conjI impI)
  assume "json_title body = None \<or> json_author body = None \<or> json_genre body = None
      \<or> json_year_published body = None \<or> json_summary body = Some None"
  then show "put_book db book_id body = (db, Inl RequestValidationError)"
    by (rule put_book_rejected)
next
  assume valid: "get_book db book_id = Some old
       \<and> json_title body = Some t \<and> json_author body = Some a
       \<and> json_genre body = Some g \<and> json_year_published body = Some y
       \<and> json_summary body \<noteq> Some None"
  define book where "book =
     \<lparr>BookCreate_title = t, BookCreate_author = a, BookCreate_genre = g,
      BookCreate_year_published = y,
      BookCreate_summary = (case json_summary body of None \<Rightarrow> None | Some s \<Rightarrow> s),
      BookCreate_summary_set = (json_summary body \<noteq> None)\<rparr>"
  define db' where "db' =
     db\<lparr>books := map (\<lambda>b. if Book_id b = book_id then set_values book b else b) (books db)\<rparr>"
  define new where "new = set_values book old"
  from valid have found: "get_book db book_id = Some old"
    by simp
  have parsed: "parse_BookCreate body = Inr book"
    using valid by (auto simp: parse_BookCreate_def book_def split: option.splits)
  have run: "put_book db book_id body = (db', BookCreate_response new)"
    using update_book_found [OF found] parsed by (simp add: put_book_def db'_def new_def)
  then have store: "fst (put_book db book_id body) = db'"
    by simp
  have reread: "get_book db' book_id = Some new"
    using found by (simp add: db'_def new_def get_book_def find_map_update)
  have fields: "Book_id new = Book_id old"
    "Book_title new = t" "Book_author new = a"
    "Book_genre new = g" "Book_year_published new = y"
    "Book_summary new = (case json_summary body of None \<Rightarrow> Book_summary old | Some s \<Rightarrow> s)"
    by (simp_all add: new_def set_values_def book_def split: option.splits)
  have others: "filter (\<lambda>b. Book_id b \<noteq> book_id) (books db')
                  = filter (\<lambda>b. Book_id b \<noteq> book_id) (books db)"
    by (simp add: db'_def filter_others_update)
  have ids: "map Book_id (books db') = map Book_id (books db)"
    by (simp add: db'_def Book_id_set_values)
  have rest: "db' = db\<lparr>books := books db'\<rparr>"
    by (simp add: db'_def)
  have answer: "Book_summary new \<noteq> None
                  \<longrightarrow> put_book db book_id body = (db', Inr (BookCreate_of new))"
    by (auto simp: run BookCreate_response_def)
  from store reread fields others ids rest answer
  show "\<exists>db' new.
           fst (put_book db book_id body) = db'
         \<and> get_book db' book_id = Some new
         \<and> Book_id new = Book_id old
         \<and> Book_title new = t \<and> Book_author new = a
         \<and> Book_genre new = g \<and> Book_year_published new = y
         \<and> Book_summary new
             = (case json_summary body of None \<Rightarrow> Book_summary old | Some s \<Rightarrow> s)
         \<and> filter (\<lambda>b. Book_id b \<noteq> book_id) (books db')
             = filter (\<lambda>b. Book_id b \<noteq> book_id) (books db)
         \<and> map Book_id (books db') = map Book_id (books db)
         \<and> db' = db\<lparr>books := books db'\<rparr>
         \<and> (Book_summary new \<noteq> None
              \<longrightarrow> put_book db book_id body = (db', Inr (BookCreate_of new)))"
    by blast
qed

theorem put_book_sets_supplied_fields_witness:
  "json_author title_only = None
   \<and> put_book library 1 title_only = (library, Inl RequestValidationError)
   \<and> get_book library 1 = Some dune
   \<and> (\<exists>db' new.
           fst (put_book library 1 retitled) = db'
         \<and> get_book db' 1 = Some new
         \<and> Book_id new = 1
         \<and> Book_title new = ''X'' \<and> Book_author new = ''Herbert''
         \<and> Book_genre new = ''SF'' \<and> Book_year_published new = 1965
         \<and> Book_summary new = Some ''A desert planet.''
         \<and> filter (\<lambda>b. Book_id b \<noteq> 1) (books db') = [emma]
         \<and> map Book_id (books db') = [1, 2]
         \<and> db' = library\<lparr>books := books db'\<rparr>
         \<and> put_book library 1 retitled = (db', Inr (BookCreate_of new)))"
proof -
  have missing: "json_title title_only = None \<or> json_author title_only = None
      \<or> json_genre title_only = None \<or> json_year_published title_only = None
      \<or> json_summary title_only = Some None"
    by (simp add: title_only_def)
  have valid: "get_book library 1 = Some dune
       \<and> json_title retitled = Some ''X'' \<and> json_author retitled = Some ''Herbert''
       \<and> json_genre retitled = Some ''SF'' \<and> json_year_published retitled = Some 1965
       \<and> json_summary retitled \<noteq> Some None"
    by (simp add: get_book_def library_def dune_def retitled_def)
  have rows: "filter (\<lambda>b. Book_id b \<noteq> 1) (books library) = [emma]"
    "map Book_id (books library) = [1, 2]" "Book_id dune = 1"
    "Book_summary dune = Some ''A desert planet.''" "json_summary retitled = None"
    by (simp_all add: library_def dune_def emma_def retitled_def)
  note rejected = put_book_sets_supplied_fields
                    [of title_only library 1, THEN conjunct1, THEN mp, OF missing]
  note updated = put_book_sets_supplied_fields
                   [of retitled library 1 dune "''X''" "''Herbert''" "''SF''" 1965,
                    THEN conjunct2, THEN mp, OF valid]
  from updated obtain db' new where
        store: "fst (put_book library 1 retitled) = db'"
    and reread: "get_book db' 1 = Some new"
    and id: "Book_id new = Book_id dune"
    and fields: "Book_title new = ''X''" "Book_author new = ''Herbert''"
                "Book_genre new = ''SF''" "Book_year_published new = 1965"
    and summary: "Book_summary new
                    = (case json_summary retitled of None \<Rightarrow> Book_summary dune | Some s \<Rightarrow> s)"
    and others: "filter (\<lambda>b. Book_id b \<noteq> 1) (books db')
                   = filter (\<lambda>b. Book_id b \<noteq> 1) (books library)"
    and ids: "map Book_id (books db') = map Book_id (books library)"
    and rest: "db' = library\<lparr>books := books db'\<rparr>"
    and answer: "Book_summary new \<noteq> None
                   \<longrightarrow> put_book library 1 retitled = (db', Inr (BookCreate_of new))"
    by (elim exE conjE)
  from summary have kept: "Book_summary new = Some ''A desert planet.''"
    by (simp add: rows)
  with answer have answered: "put_book library 1 retitled = (db', Inr (BookCreate_of new))"
    by simp
  from id others ids have frame: "Book_id new = 1"
    "filter (\<lambda>b. Book_id b \<noteq> 1) (books db') = [emma]" "map Book_id (books db') = [1, 2]"
    by (simp_all add: rows)
  from valid have found: "get_book library 1 = Some dune"
    by simp
  have absent: "json_author title_only = None"
    by (simp add: title_only_def)
  from store reread frame fields kept rest answered
  have "\<exists>db' new.
           fst (put_book library 1 retitled) = db'
         \<and> get_book db' 1 = Some new
         \<and> Book_id new = 1
         \<and> Book_title new = ''X'' \<and> Book_author new = ''Herbert''
         \<and> Book_genre new = ''SF'' \<and> Book_year_published new = 1965
         \<and> Book_summary new = Some ''A desert planet.''
         \<and> filter (\<lambda>b. Book_id b \<noteq> 1) (books db') = [emma]
         \<and> map Book_id (books db') = [1, 2]
         \<and> db' = library\<lparr>books := books db'\<rparr>
         \<and> put_book library 1 retitled = (db', Inr (BookCreate_of new))"
    by (intro exI conjI)
  with absent rejected found show ?thesis
    by (intro conjI)
qed

text \<open>
  A body that carries only \<^verbatim>\<open>title\<close> does not reach the handler: book 1 exists, the
  request is rejected by validation, and the store is as before. And a full body without
  \<^verbatim>\<open>summary\<close> for book 2, whose stored summary is NULL: the new title is written to
  the store, but the answer is not the row; the re-read row fails the response validation.
\<close>

theorem put_book_title_only_rejected:
  "get_book library 1 = Some dune
   \<and> put_book library 1 title_only = (library, Inl RequestValidationError)
   \<and> get_book library 2 = Some emma
   \<and> put_book library 2 emma_retitled
       = (library\<lparr>books := [dune, emma\<lparr>Book_title := ''Emma, revised''\<rparr>]\<rparr>,
          Inl ResponseValidationError)"
  by (simp add: put_book_def parse_BookCreate_def update_book_def update_book_data_def
        set_values_def BookCreate_response_def Let_def title_only_def emma_retitled_def
        get_book_def library_def dune_def emma_def)

section \<open>Listing books\<close>



section \<open>Creating a book\<close>

text \<open>
  C5, as the code has it. When \<^verbatim>\<open>create_book\<close> succeeds, the record it returns has the
  title, author, genre and year of the request, and its summary is the text that the
  language model returned for the prompt built from title and author. Nothing in the
  code looks at that text, so it may be empty.
\<close>

theorem create_book_returns_input_and_model_text:
  assumes "create_book llm db book = (db', Inr out)"
  shows "BookCreate_title out = BookCreate_title book
       \<and> BookCreate_author out = BookCreate_author book
       \<and> BookCreate_genre out = BookCreate_genre book
       \<and> BookCreate_year_published out = BookCreate_year_published book
       \<and> (\<exists>text. llm (''Summarize book title '' @ BookCreate_title book @ '' by ''
                        @ BookCreate_author book @ '' in 150 words.'') = Inr text
                 \<and> BookCreate_summary out = Some text)"
  using assms
  by (auto simp: create_book_def generate_def insert_book_data_def add_book_def
        BookCreate_response_def BookCreate_of_def Let_def split: sum.splits if_splits)

theorem create_book_returns_input_and_model_text_witness:
  "create_book padded_llm library dune_request
     = (library\<lparr>books := [dune, emma, dune_summarised], books_id_seq := 4\<rparr>,
        Inr (BookCreate_of dune_summarised))
   \<and> BookCreate_title (BookCreate_of dune_summarised) = ''Dune''
   \<and> BookCreate_author (BookCreate_of dune_summarised) = ''Herbert''
   \<and> BookCreate_genre (BookCreate_of dune_summarised) = ''SF''
   \<and> BookCreate_year_published (BookCreate_of dune_summarised) = 1965
   \<and> padded_llm ''Summarize book title Dune by Herbert in 150 words.''
       = Inr '' A short summary. ''
   \<and> BookCreate_summary (BookCreate_of dune_summarised) = Some '' A short summary. ''"
proof -
  have run: "create_book padded_llm library dune_request
     = (library\<lparr>books := [dune, emma, dune_summarised], books_id_seq := 4\<rparr>,
        Inr (BookCreate_of dune_summarised))"
    by (simp add: create_book_def generate_def insert_book_data_def add_book_def Let_def
          BookCreate_response_def padded_llm_def library_def dune_request_def
          dune_summarised_def dune_copy_def dune_def emma_def)
  from create_book_returns_input_and_model_text [OF run] run show ?thesis
    by (simp add: dune_request_def padded_llm_def)
qed

text \<open>
  With a model that answers the empty string, \<^verbatim>\<open>create_book\<close> succeeds and the
  summary of the returned record is the empty string.
\<close>

theorem create_book_empty_summary:
  "create_book silent_llm empty_store dune_request
     = (empty_store\<lparr>books := [\<lparr>Book_id = 1, Book_title = ''Dune'', Book_author = ''Herbert'',
                                  Book_genre = ''SF'', Book_year_published = 1965,
                                  Book_summary = Some []\<rparr>],
                     books_id_seq := 2\<rparr>,
        Inr \<lparr>BookCreate_title = ''Dune'', BookCreate_author = ''Herbert'',
             BookCreate_genre = ''SF'', BookCreate_year_published = 1965,
             BookCreate_summary = Some [], BookCreate_summary_set = True\<rparr>)"
  by (simp add: create_book_def generate_def insert_book_data_def add_book_def
        BookCreate_response_def BookCreate_of_def silent_llm_def empty_store_def
        dune_request_def Let_def)

section \<open>Deleting a book\<close>

lemma delete_book_succeeds:
  assumes "filter (\<lambda>b. Book_id b = book_id) (books db) = [b]"
  shows "delete_book db book_id = (delete_books_where_id db book_id, Inr (Response 204))"
proof -
  have "b \<in> set (filter (\<lambda>b. Book_id b = book_id) (books db))"
    by (simp add: assms)
  then have "get_book db book_id \<noteq> None"
    by (auto simp: get_book_None_iff)
  then show ?thesis
    by (auto simp: delete_book_def delete_book_data_def scalar_one_or_none_def assms)
qed

text \<open>
  C6. When \<^verbatim>\<open>delete_book\<close> succeeds it answers 204 with no content; in the store it
  leaves, \<^verbatim>\<open>get_book\<close> finds no row with that id, so \<^verbatim>\<open>read_book\<close> fails with 404,
  and no review row has that \<^verbatim>\<open>book_id\<close>: the cascade of the foreign key removed them.
\<close>

theorem delete_book_then_not_found:
  assumes "delete_book db book_id = (db', Inr r)"
  shows "r = Response 204
       \<and> get_book db' book_id = None
       \<and> read_book db' book_id = (db', Inl (HTTPException 404 (Detail ''Book not found'')))
       \<and> book_id \<notin> Review_book_id ` set (reviews db')"
proof -
  from assms have db': "db' = delete_books_where_id db book_id" and r: "r = Response 204"
    by (auto simp: delete_book_def delete_book_data_def split: option.splits sum.splits)
  have gone: "get_book db' book_id = None"
    by (simp add: db' delete_books_where_id_def get_book_def find_None_iff)
  have "book_id \<notin> Review_book_id ` set (reviews db')"
    by (auto simp: db' delete_books_where_id_def)
  with r gone show ?thesis
    by (simp add: read_book_def)
qed

theorem delete_book_then_not_found_witness:
  "delete_book library 1 = (library\<lparr>books := [emma], reviews := []\<rparr>, Inr (Response 204))
   \<and> reviews library = [dune_review] \<and> Review_book_id dune_review = 1
   \<and> get_book (library\<lparr>books := [emma], reviews := []\<rparr>) 1 = None
   \<and> read_book (library\<lparr>books := [emma], reviews := []\<rparr>) 1
       = (library\<lparr>books := [emma], reviews := []\<rparr>,
          Inl (HTTPException 404 (Detail ''Book not found'')))
   \<and> 1 \<notin> Review_book_id ` set (reviews (library\<lparr>books := [emma], reviews := []\<rparr>))"
proof -
  have run: "delete_book library 1
               = (library\<lparr>books := [emma], reviews := []\<rparr>, Inr (Response 204))"
    by (simp add: delete_book_def delete_book_data_def scalar_one_or_none_def get_book_def
          delete_books_where_id_def library_def dune_def emma_def dune_review_def)
  have before: "reviews library = [dune_review]" "Review_book_id dune_review = 1"
    by (simp_all add: library_def dune_review_def)
  from delete_book_then_not_found [OF run] run before show ?thesis
    by simp
qed

section \<open>Insert, then look up\<close>

lemma get_book_after_insert:
  assumes "insert_book_data db book = Inr (db', row)"
  shows "get_book db' (Book_id row) = Some row"
proof -
  from assms have fresh: "\<not> list_ex (\<lambda>b. Book_id b = books_id_seq db) (books db)"
    and id: "Book_id row = books_id_seq db"
    and db': "books db' = books db @ [row]"
    by (auto simp: insert_book_data_def add_book_def Let_def split: if_splits)
  from fresh have "find (\<lambda>b. Book_id b = books_id_seq db) (books db) = None"
    by (simp add: find_None_iff list_ex_iff)
  then show ?thesis
    by (simp add: get_book_def db' id find_append_None)
qed

lemma create_book_inserted:
  assumes "create_book llm db book = (db', Inr out)"
  shows "\<exists>text row.
           insert_book_data db (book\<lparr>BookCreate_summary := Some text,
                                      BookCreate_summary_set := True\<rparr>) = Inr (db', row)
         \<and> Book_summary row = Some text \<and> Book_id row = books_id_seq db
         \<and> out = BookCreate_of row"
  using assms
  by (auto simp: create_book_def generate_def insert_book_data_def add_book_def
        BookCreate_response_def Let_def split: sum.splits if_splits)

text \<open>
  C7. When \<^verbatim>\<open>insert_book_data\<close> succeeds and the row it returns has id X, then
  \<^verbatim>\<open>get_book\<close> for X in the resulting store returns that same row. Through the
  endpoints: when \<^verbatim>\<open>create_book\<close> succeeds, the row it inserted has the id X that the
  sequence held, \<^verbatim>\<open>get_book\<close> for X returns that row, and \<^verbatim>\<open>read_book\<close> for X
  succeeds with a record equal to the one \<^verbatim>\<open>create_book\<close> returned.
\<close>

theorem insert_then_get_book:
  "(insert_book_data db book = Inr (db', row)
      \<longrightarrow> get_book db' (Book_id row) = Some row)
   \<and> (create_book llm db book = (db'', Inr out)
      \<longrightarrow> (\<exists>created. books db'' = books db @ [created]
                    \<and> Book_id created = books_id_seq db
                    \<and> get_book db'' (books_id_seq db) = Some created
                    \<and> BookCreate_response created = Inr out
                    \<and> read_book db'' (books_id_seq db) = (db'', Inr out)))"
proof (intro conjI impI)
  assume "insert_book_data db book = Inr (db', row)"
  then show "get_book db' (Book_id row) = Some row"
    by (rule get_book_after_insert)
next
  assume "create_book llm db book = (db'', Inr out)"
  from create_book_inserted [OF this] obtain generated created
    where ins: "insert_book_data db (book\<lparr>BookCreate_summary := Some generated,
                                            BookCreate_summary_set := True\<rparr>)
                  = Inr (db'', created)"
      and summary: "Book_summary created = Some generated"
      and id: "Book_id created = books_id_seq db"
      and out: "out = BookCreate_of created"
    by blast
  from ins have appended: "books db'' = books db @ [created]"
    by (auto simp: insert_book_data_def add_book_def Let_def split: if_splits)
  from get_book_after_insert [OF ins] id
  have found: "get_book db'' (books_id_seq db) = Some created"
    by simp
  from summary out have valid: "BookCreate_response created = Inr out"
    by (simp add: BookCreate_response_def)
  from found valid have "read_book db'' (books_id_seq db) = (db'', Inr out)"
    by (simp add: read_book_def)
  with appended id found valid
  show "\<exists>created. books db'' = books db @ [created]
                    \<and> Book_id created = books_id_seq db
                    \<and> get_book db'' (books_id_seq db) = Some created
                    \<and> BookCreate_response created = Inr out
                    \<and> read_book db'' (books_id_seq db) = (db'', Inr out)"
    by blast
qed

theorem insert_then_get_book_witness:
  "insert_book_data library dune_request
     = Inr (library\<lparr>books := [dune, emma, dune_copy], books_id_seq := 4\<rparr>, dune_copy)
   \<and> get_book (library\<lparr>books := [dune, emma, dune_copy], books_id_seq := 4\<rparr>) 3
       = Some dune_copy
   \<and> create_book padded_llm library dune_request
       = (library\<lparr>books := [dune, emma, dune_summarised], books_id_seq := 4\<rparr>,
          Inr (BookCreate_of dune_summarised))
   \<and> get_book (library\<lparr>books := [dune, emma, dune_summarised], books_id_seq := 4\<rparr>) 3
       = Some dune_summarised
   \<and> read_book (library\<lparr>books := [dune, emma, dune_summarised], books_id_seq := 4\<rparr>) 3
       = (library\<lparr>books := [dune, emma, dune_summarised], books_id_seq := 4\<rparr>,
          Inr (BookCreate_of dune_summarised))"
proof -
  have inserted: "insert_book_data library dune_request
     = Inr (library\<lparr>books := [dune, emma, dune_copy], books_id_seq := 4\<rparr>, dune_copy)"
    by (simp add: insert_book_data_def add_book_def Let_def library_def dune_request_def
          dune_copy_def dune_def emma_def)
  have created: "create_book padded_llm library dune_request
       = (library\<lparr>books := [dune, emma, dune_summarised], books_id_seq := 4\<rparr>,
          Inr (BookCreate_of dune_summarised))"
    by (simp add: create_book_def generate_def insert_book_data_def add_book_def Let_def
          BookCreate_response_def padded_llm_def library_def dune_request_def
          dune_summarised_def dune_copy_def dune_def emma_def)
  have ids: "Book_id dune_copy = 3" "books_id_seq library = 3"
    "books library = [dune, emma]"
    by (simp_all add: dune_copy_def library_def)
  from insert_then_get_book
         [of library dune_request
             "library\<lparr>books := [dune, emma, dune_copy], books_id_seq := 4\<rparr>" dune_copy
             padded_llm
             "library\<lparr>books := [dune, emma, dune_summarised], books_id_seq := 4\<rparr>"
             "BookCreate_of dune_summarised"]
    inserted created
  show ?thesis
    by (simp add: ids)
qed

section \<open>Summaries\<close>

text \<open>
  C8. If the language model raises on the prompt, \<^verbatim>\<open>summarize_with_llamacpp\<close> returns
  the sentinel \<^verbatim>\<open>Summary generation failed.\<close> rather than raising. The endpoint
  \<^verbatim>\<open>generate_summary\<close> fails exactly when \<^verbatim>\<open>summarize_with_llamacpp\<close> returns the
  sentinel, and then with status 500; otherwise it returns the summary.
\<close>

theorem summarize_sentinel_is_endpoint_failure:
  "(llm (''Summarize the following content:'' @ [CHR 0x0A]
           @ SummaryRequest_book_content request) = Inl e
      \<longrightarrow> summarize_with_llamacpp llm (SummaryRequest_book_content request)
            = ''Summary generation failed.'')
   \<and> ((\<exists>err. generate_summary llm request = Inl err)
        \<longleftrightarrow> summarize_with_llamacpp llm (SummaryRequest_book_content request)
              = ''Summary generation failed.'')
   \<and> (summarize_with_llamacpp llm (SummaryRequest_book_content request)
         = ''Summary generation failed.''
      \<longrightarrow> generate_summary llm request
            = Inl (HTTPException 500 (Detail ''Failed to generate summary.''))
          \<and> status_code (HTTPException 500 (Detail ''Failed to generate summary.'')) = 500)
   \<and> (summarize_with_llamacpp llm (SummaryRequest_book_content request)
         \<noteq> ''Summary generation failed.''
      \<longrightarrow> generate_summary llm request
            = Inr (summarize_with_llamacpp llm (SummaryRequest_book_content request)))"
proof -
  have caught: "llm (''Summarize the following content:'' @ [CHR 0x0A]
                       @ SummaryRequest_book_content request) = Inl e
      \<longrightarrow> summarize_with_llamacpp llm (SummaryRequest_book_content request)
            = ''Summary generation failed.''"
    by (simp add: summarize_with_llamacpp_def generate_def)
  have endpoint: "generate_summary llm request =
      (if summarize_with_llamacpp llm (SummaryRequest_book_content request)
            = ''Summary generation failed.''
       then Inl (HTTPException 500 (Detail ''Failed to generate summary.''))
       else Inr (summarize_with_llamacpp llm (SummaryRequest_book_content request)))"
    by (simp add: generate_summary_def Let_def)
  from caught show ?thesis
    by (simp add: endpoint)
qed

theorem summarize_sentinel_is_endpoint_failure_witness:
  "failing_llm (''Summarize the following content:'' @ [CHR 0x0A] @ ''abc'')
     = Inl (ModelError ''model not loaded'')
   \<and> summarize_with_llamacpp failing_llm ''abc'' = ''Summary generation failed.''
   \<and> generate_summary failing_llm abc_request
       = Inl (HTTPException 500 (Detail ''Failed to generate summary.''))
   \<and> summarize_with_llamacpp padded_llm ''abc'' = ''A short summary.''
   \<and> generate_summary padded_llm abc_request = Inr ''A short summary.''"
proof -
  have raised: "failing_llm (''Summarize the following content:'' @ [CHR 0x0A]
                   @ SummaryRequest_book_content abc_request)
                  = Inl (ModelError ''model not loaded'')"
    by (simp add: failing_llm_def)
  have content: "SummaryRequest_book_content abc_request = ''abc''"
    by (simp add: abc_request_def)
  have stripped: "summarize_with_llamacpp padded_llm ''abc'' = ''A short summary.''"
    by (simp add: summarize_with_llamacpp_def generate_def padded_llm_def strip_def
          isspace_def)
  have distinct: "''A short summary.'' \<noteq> ''Summary generation failed.''"
    by simp
  from summarize_sentinel_is_endpoint_failure
         [of failing_llm abc_request "ModelError ''model not loaded''"] raised
  have failing: "summarize_with_llamacpp failing_llm ''abc'' = ''Summary generation failed.''
       \<and> generate_summary failing_llm abc_request
           = Inl (HTTPException 500 (Detail ''Failed to generate summary.''))"
    by (simp add: content)
  from summarize_sentinel_is_endpoint_failure [of padded_llm abc_request] stripped distinct
  have padded: "generate_summary padded_llm abc_request = Inr ''A short summary.''"
    by (simp add: content)
  from raised failing stripped padded show ?thesis
    by (simp add: content)
qed

section \<open>Listing the reviews of a book\<close>

text \<open>
  C9. \<^verbatim>\<open>read_reviews_for_book\<close> fails with 404 when no book has the id, and also when
  the book exists but no review has that \<^verbatim>\<open>book_id\<close>. Otherwise it returns the
  reviews of that book, and this list is not empty. It never returns the empty list.
\<close>

theorem read_reviews_not_found_or_nonempty:
  "(book_id \<notin> Book_id ` set (books db)
      \<longrightarrow> read_reviews_for_book db book_id
            = (db, Inl (HTTPException 404 (Detail ''Book not found''))))
   \<and> (book_id \<in> Book_id ` set (books db) \<and> book_id \<notin> Review_book_id ` set (reviews db)
      \<longrightarrow> read_reviews_for_book db book_id
            = (db, Inl (HTTPException 404 (Detail ''Review not found''))))
   \<and> (book_id \<in> Book_id ` set (books db) \<and> book_id \<in> Review_book_id ` set (reviews db)
      \<longrightarrow> read_reviews_for_book db book_id
            = (db, Inr (map ReviewCreate_of
                          (filter (\<lambda>r. Review_book_id r = book_id) (reviews db))))
          \<and> filter (\<lambda>r. Review_book_id r = book_id) (reviews db) \<noteq> [])
   \<and> read_reviews_for_book db book_id \<noteq> (db', Inr [])"
proof -
  have empty_iff: "filter (\<lambda>r. Review_book_id r = book_id) (reviews db) = []
                     \<longleftrightarrow> book_id \<notin> Review_book_id ` set (reviews db)"
    by (auto simp: filter_empty_conv)
  show ?thesis
  proof (cases "get_book db book_id")
    case None
    then show ?thesis
      by (simp add: read_reviews_for_book_def get_book_None_iff [symmetric])
  next
    case (Some b)
    then have present: "book_id \<in> Book_id ` set (books db)"
      using get_book_None_iff [of db book_id] by simp
    show ?thesis
      by (simp add: read_reviews_for_book_def get_review_def Some present empty_iff Let_def)
  qed
qed

theorem read_reviews_not_found_or_nonempty_witness:
  "3 \<notin> Book_id ` set (books library)
   \<and> read_reviews_for_book library 3
       = (library, Inl (HTTPException 404 (Detail ''Book not found'')))
   \<and> 2 \<in> Book_id ` set (books library) \<and> 2 \<notin> Review_book_id ` set (reviews library)
   \<and> read_reviews_for_book library 2
       = (library, Inl (HTTPException 404 (Detail ''Review not found'')))
   \<and> 1 \<in> Book_id ` set (books library) \<and> 1 \<in> Review_book_id ` set (reviews library)
   \<and> read_reviews_for_book library 1 = (library, Inr [ReviewCreate_of dune_review])"
proof -
  have ids: "Book_id ` set (books library) = {1, 2}"
    "Review_book_id ` set (reviews library) = {1}"
    "filter (\<lambda>r. Review_book_id r = 1) (reviews library) = [dune_review]"
    by (simp_all add: library_def dune_def emma_def dune_review_def)
  from read_reviews_not_found_or_nonempty [of 3 library]
    read_reviews_not_found_or_nonempty [of 2 library]
    read_reviews_not_found_or_nonempty [of 1 library]
  show ?thesis
    by (simp add: ids)
qed

section \<open>Creating a review\<close>




end
